theory Spec2Isabelle
  imports Complex_Main
begin

section \<open>JavaScript values\<close>

text \<open>
  The service in \<^verbatim>\<open>src/index.js\<close> works on untyped JavaScript values: the
  configuration is whatever \<^verbatim>\<open>require\<close> parses from a JSON file, and every response
  body is an object literal handed to \<^verbatim>\<open>res.json\<close>. Objects are association lists in
  source order (a parsed JSON object has distinct keys). Numbers are the rationals that
  finite doubles denote; \<^verbatim>\<open>NaN\<close> cannot come out of a JSON file.
\<close>

datatype js =
    JUndefined
  | JNull
  | JBool bool
  | JNum rat
  | JStr string
  | JArr "js list"
  | JObj "(string \<times> js) list"

datatype js_error = JsError (err_message: string)

text \<open>Truthiness, as \<^verbatim>\<open>||\<close> and \<^verbatim>\<open>if\<close> test it.\<close>

fun truthy :: "js \<Rightarrow> bool" where
  "truthy JUndefined = False"
| "truthy JNull = False"
| "truthy (JBool b) = b"
| "truthy (JNum n) = (n \<noteq> 0)"
| "truthy (JStr s) = (s \<noteq> [])"
| "truthy (JArr xs) = True"
| "truthy (JObj kvs) = True"

text \<open>\<^verbatim>\<open>a || b\<close>: the left operand when it is truthy, else the right one.\<close>

definition js_or :: "js \<Rightarrow> js \<Rightarrow> js" where
  "js_or a b = (if truthy a then a else b)"

fun nullish :: "js \<Rightarrow> bool" where
  "nullish JUndefined = True"
| "nullish JNull = True"
| "nullish v = False"

text \<open>
  Reading a property of a value that is neither \<^verbatim>\<open>null\<close> nor \<^verbatim>\<open>undefined\<close>. The
  program reads only the names \<^verbatim>\<open>security\<close>, \<^verbatim>\<open>cors\<close>, \<^verbatim>\<open>features\<close>, \<^verbatim>\<open>app\<close>,
  \<^verbatim>\<open>newUI\<close>, \<^verbatim>\<open>advancedAnalytics\<close> and \<^verbatim>\<open>betaFeatures\<close>; none of them is on a
  built-in prototype, so a primitive or an array answers \<^verbatim>\<open>undefined\<close>.
\<close>

fun get_own :: "js \<Rightarrow> string \<Rightarrow> js" where
  "get_own (JObj kvs) k = (case map_of kvs k of Some v \<Rightarrow> v | None \<Rightarrow> JUndefined)"
| "get_own v k = JUndefined"

text \<open>\<^verbatim>\<open>o.k\<close> raises a TypeError on \<^verbatim>\<open>null\<close> and \<^verbatim>\<open>undefined\<close>.\<close>

definition get_prop :: "js \<Rightarrow> string \<Rightarrow> js_error + js" where
  "get_prop v k =
     (if nullish v then Inl (JsError (''Cannot read properties of null or undefined (reading '' @ k @ '')''))
      else Inr (get_own v k))"

text \<open>\<^verbatim>\<open>o?.k\<close> answers \<^verbatim>\<open>undefined\<close> there instead.\<close>

definition opt_prop :: "js \<Rightarrow> string \<Rightarrow> js" where
  "opt_prop v k = (if nullish v then JUndefined else get_own v k)"

section \<open>Process environment and configuration loading\<close>

text \<open>
  \<^verbatim>\<open>process.env\<close> as lines 7 to 9 read it, that is after \<^verbatim>\<open>dotenv\<close> has merged
  the \<^verbatim>\<open>.env\<close> file. Every value of it is a string.
\<close>

type_synonym process_env = "(string \<times> string) list"

definition getenv :: "process_env \<Rightarrow> string \<Rightarrow> js" where
  "getenv penv k = (case map_of penv k of Some s \<Rightarrow> JStr s | None \<Rightarrow> JUndefined)"

text \<open>\<^verbatim>\<open>process.env.X || 'default'\<close> where both sides are strings.\<close>

definition env_or :: "process_env \<Rightarrow> string \<Rightarrow> string \<Rightarrow> string" where
  "env_or penv k d = (case map_of penv k of Some s \<Rightarrow> (if s \<noteq> [] then s else d) | None \<Rightarrow> d)"

text \<open>
  The directory \<^verbatim>\<open>config/environments\<close>: for an environment name, what
  \<^verbatim>\<open>require\<close> finds in \<^verbatim>\<open><name>.json\<close>. No entry is a missing file.
\<close>

datatype config_file = Malformed | Parsed js

type_synonym config_dir = "(string \<times> config_file) list"

definition require_config :: "config_dir \<Rightarrow> string \<Rightarrow> js_error + js" where
  "require_config dir env =
     (case map_of dir env of
        None \<Rightarrow> Inl (JsError (''Cannot find module ../config/environments/'' @ env @ ''.json''))
      | Some Malformed \<Rightarrow> Inl (JsError ''Unexpected token in JSON'')
      | Some (Parsed j) \<Rightarrow> Inr j)"

definition default_config :: "js \<Rightarrow> js" where
  "default_config port =
     JObj [(''app'', JObj [(''name'', JStr ''ci-test''), (''port'', port)]),
           (''features'', JObj []),
           (''logging'', JObj [(''level'', JStr ''info'')])]"

datatype console_entry = Warn string | ErrorLog js_error

text \<open>Lines 12 to 22: the \<^verbatim>\<open>try\<close>/\<^verbatim>\<open>catch\<close> around \<^verbatim>\<open>require\<close>.\<close>

definition load_config :: "config_dir \<Rightarrow> string \<Rightarrow> js \<Rightarrow> js \<times> console_entry list" where
  "load_config dir env port =
     (case require_config dir env of
        Inr j \<Rightarrow> (j, [])
      | Inl e \<Rightarrow>
          (default_config port,
           [Warn (''No config found for environment: '' @ env @ '', using defaults'')]))"

section \<open>The server\<close>

text \<open>
  The module-level bindings the handlers close over, and the console. \<^verbatim>\<open>config\<close>
  is a \<^verbatim>\<open>let\<close> binding, so the handlers are modelled as state passing: each returns
  the server it leaves behind.
\<close>

record server =
  PORT :: js
  NODE_ENV :: string
  LOG_LEVEL :: string
  config :: js
  cors_options :: js
  penv :: process_env
  console :: "console_entry list"

text \<open>
  Module evaluation, lines 7 to 26. \<^verbatim>\<open>config.security?.cors\<close> reads a property of
  \<^verbatim>\<open>config\<close> itself without \<^verbatim>\<open>?.\<close>, so a configuration file holding \<^verbatim>\<open>null\<close>
  raises there and the process never serves. Binding the socket (\<^verbatim>\<open>app.listen\<close>)
  is the runtime's and stays outside.
\<close>

definition startup :: "process_env \<Rightarrow> config_dir \<Rightarrow> js_error + server" where
  "startup pe dir =
     (let port = js_or (getenv pe ''PORT'') (JNum 3000);
          env = env_or pe ''NODE_ENV'' ''development'';
          lvl = env_or pe ''LOG_LEVEL'' ''info'';
          (cfg, out) = load_config dir env port
      in case get_prop cfg ''security'' of
           Inl e \<Rightarrow> Inl e
         | Inr sec \<Rightarrow>
             Inr \<lparr>PORT = port, NODE_ENV = env, LOG_LEVEL = lvl, config = cfg,
                  cors_options = js_or (opt_prop sec ''cors'') (JObj []),
                  penv = pe, console = out\<rparr>)"

section \<open>Requests, responses and the clock\<close>

text \<open>
  A request is its method and its request target as received (\<^verbatim>\<open>req.originalUrl\<close>).
  A response is the status and the value handed to \<^verbatim>\<open>res.json\<close>; a response written
  without \<^verbatim>\<open>res.json\<close> has the body \<^verbatim>\<open>undefined\<close>. The clock is what the runtime
  answers during one request:
  \<^verbatim>\<open>process.uptime()\<close> reads the monotonic clock, kept here as whole nanoseconds since
  the process started, and \<^verbatim>\<open>new Date().toISOString()\<close> reads the wall clock.
\<close>

record request =
  req_method :: string
  originalUrl :: string

record response =
  status :: nat
  body :: js

record clock =
  uptime_ns :: nat
  iso_now :: string

section \<open>Route handlers\<close>

text \<open>Lines 33 to 45.\<close>

definition health :: "server \<Rightarrow> clock \<Rightarrow> request \<Rightarrow> (js_error + response) \<times> server" where
  "health s clk req =
     (Inr \<lparr>status = 200,
           body = JObj [(''status'', JStr ''healthy''),
                        (''timestamp'', JStr (iso_now clk)),
                        (''environment'', JStr (NODE_ENV s)),
                        (''version'', JStr (env_or (penv s) ''npm_package_version'' ''1.0.0'')),
                        (''uptime'', JNum (of_nat (uptime_ns clk) / 1000000000)),
                        (''config'', JObj [(''logLevel'', JStr (LOG_LEVEL s)),
                                           (''port'', PORT s)])]\<rparr>, s)"

text \<open>Lines 48 to 54. \<^verbatim>\<open>res.json\<close> without \<^verbatim>\<open>res.status\<close> answers 200.\<close>

definition features :: "server \<Rightarrow> clock \<Rightarrow> request \<Rightarrow> (js_error + response) \<times> server" where
  "features s clk req =
     (case get_prop (config s) ''features'' of
        Inl e \<Rightarrow> (Inl e, s)
      | Inr f \<Rightarrow>
          (Inr \<lparr>status = 200,
                body = JObj [(''environment'', JStr (NODE_ENV s)),
                             (''features'', js_or f (JObj [])),
                             (''message'', JStr ''Feature flags configuration'')]\<rparr>, s))"

text \<open>\<^verbatim>\<open>config.features?.name || false\<close>, lines 64 to 66.\<close>

definition flag :: "js \<Rightarrow> string \<Rightarrow> js_error + js" where
  "flag cfg name =
     (case get_prop cfg ''features'' of
        Inl e \<Rightarrow> Inl e
      | Inr f \<Rightarrow> Inr (js_or (opt_prop f name) (JBool False)))"

text \<open>Lines 57 to 71.\<close>

definition root :: "server \<Rightarrow> clock \<Rightarrow> request \<Rightarrow> (js_error + response) \<times> server" where
  "root s clk req =
     (case flag (config s) ''newUI'' of
        Inl e \<Rightarrow> (Inl e, s)
      | Inr a \<Rightarrow>
     (case flag (config s) ''advancedAnalytics'' of
        Inl e \<Rightarrow> (Inl e, s)
      | Inr b \<Rightarrow>
     (case flag (config s) ''betaFeatures'' of
        Inl e \<Rightarrow> (Inl e, s)
      | Inr c \<Rightarrow>
          (Inr \<lparr>status = 200,
                body = JObj [(''message'', JStr ''Welcome to Trunk-Based Development CI/CD Pipeline!''),
                             (''environment'', JStr (NODE_ENV s)),
                             (''timestamp'', JStr (iso_now clk)),
                             (''logLevel'', JStr (LOG_LEVEL s)),
                             (''features'', JObj [(''newUI'', a),
                                                  (''advancedAnalytics'', b),
                                                  (''betaFeatures'', c)])]\<rparr>, s))))"

text \<open>Lines 74 to 81.\<close>

definition api_status :: "server \<Rightarrow> clock \<Rightarrow> request \<Rightarrow> (js_error + response) \<times> server" where
  "api_status s clk req =
     (case get_prop (config s) ''app'' of
        Inl e \<Rightarrow> (Inl e, s)
      | Inr a \<Rightarrow>
          (Inr \<lparr>status = 200,
                body = JObj [(''status'', JStr ''operational''),
                             (''environment'', JStr (NODE_ENV s)),
                             (''config'', js_or a (JObj [])),
                             (''timestamp'', JStr (iso_now clk))]\<rparr>, s))"

text \<open>Lines 84 to 90: the error middleware, which also writes to the console.\<close>

definition error_handler :: "server \<Rightarrow> js_error \<Rightarrow> request \<Rightarrow> response \<times> server" where
  "error_handler s err req =
     (\<lparr>status = 500,
       body = JObj [(''error'', JStr ''Internal Server Error''),
                    (''message'', JStr (if NODE_ENV s = ''development'' then err_message err
                                        else ''Something went wrong''))]\<rparr>,
      s\<lparr>console := console s @ [ErrorLog err]\<rparr>)"

text \<open>Lines 93 to 99.\<close>

definition not_found :: "server \<Rightarrow> clock \<Rightarrow> request \<Rightarrow> response \<times> server" where
  "not_found s clk req =
     (\<lparr>status = 404,
       body = JObj [(''error'', JStr ''Not Found''),
                    (''message'', JStr (''Route '' @ originalUrl req @ '' not found'')),
                    (''timestamp'', JStr (iso_now clk))]\<rparr>, s)"

section \<open>Routing\<close>

text \<open>
  \<^verbatim>\<open>app.get(path, ...)\<close> under the framework's defaults: the route serves GET and
  HEAD, compares the path without its query and fragment, ignores the case of ASCII
  letters and accepts one trailing slash.
\<close>

definition to_lower :: "char \<Rightarrow> char" where
  "to_lower c =
     (let n = (of_char c :: nat) in if 65 \<le> n \<and> n \<le> 90 then char_of (n + 32) else c)"

text \<open>
  The path the router matches: the request target up to its first \<^verbatim>\<open>?\<close> or
  \<^verbatim>\<open>#\<close>.
\<close>

definition pathname :: "string \<Rightarrow> string" where
  "pathname url = takeWhile (\<lambda>c. c \<noteq> CHR ''?'' \<and> c \<noteq> CHR ''#'') url"

text \<open>
  A request target in origin form that the framework's URL parser reads on its direct path:
  it starts with \<^verbatim>\<open>/\<close> and holds no \<^verbatim>\<open>#\<close>, no white space (tab, line feed, form
  feed, carriage return, space) and no non-breaking space. Any other target goes through
  the runtime's general URL parser, which also rewrites characters of the path.
\<close>

definition plain_target :: "string \<Rightarrow> bool" where
  "plain_target url =
     (case url of
        [] \<Rightarrow> False
      | c # cs \<Rightarrow>
          c = CHR ''/''
          \<and> list_all (\<lambda>d. (of_char d :: nat) \<notin> {9, 10, 12, 13, 32, 35, 160}) url)"

definition strip_slash :: "string \<Rightarrow> string" where
  "strip_slash p = (if p \<noteq> [] \<and> last p = CHR ''/'' then butlast p else p)"

definition path_matches :: "string \<Rightarrow> string \<Rightarrow> bool" where
  "path_matches pat p = (map to_lower (strip_slash p) = strip_slash pat)"

definition handles_method :: "string \<Rightarrow> bool" where
  "handles_method m = (m = ''GET'' \<or> m = ''HEAD'')"

datatype route = Health | Features | Root | ApiStatus

text \<open>The routes in the order lines 33 to 81 register them.\<close>

definition find_route :: "request \<Rightarrow> route option" where
  "find_route req =
     (let p = pathname (originalUrl req) in
      if \<not> handles_method (req_method req) then None
      else if path_matches ''/health'' p then Some Health
      else if path_matches ''/features'' p then Some Features
      else if path_matches ''/'' p then Some Root
      else if path_matches ''/api/status'' p then Some ApiStatus
      else None)"

fun route_handler :: "route \<Rightarrow> server \<Rightarrow> clock \<Rightarrow> request \<Rightarrow> (js_error + response) \<times> server" where
  "route_handler Health = health"
| "route_handler Features = features"
| "route_handler Root = root"
| "route_handler ApiStatus = api_status"

section \<open>Decoding a path\<close>

text \<open>
  The catch-all is mounted on \<^verbatim>\<open>*\<close>, and the router decodes the path it hands to such
  a layer with \<^verbatim>\<open>decodeURIComponent\<close>. That raises a URIError when a \<^verbatim>\<open>%\<close> is not
  followed by two hexadecimal digits, or when the escaped bytes are not the UTF-8 encoding
  of code points: a byte with the high bit set must start a well-formed sequence whose
  continuation bytes are escapes too.
\<close>

definition hex_digit :: "char \<Rightarrow> nat option" where
  "hex_digit c =
     (let n = (of_char c :: nat) in
      if 48 \<le> n \<and> n \<le> 57 then Some (n - 48)
      else if 65 \<le> n \<and> n \<le> 70 then Some (n - 55)
      else if 97 \<le> n \<and> n \<le> 102 then Some (n - 87)
      else None)"

text \<open>The path as literal characters and escaped bytes; \<^verbatim>\<open>None\<close> on a malformed escape.\<close>

fun escapes :: "string \<Rightarrow> (char + nat) list option" where
  "escapes [] = Some []"
| "escapes (c # cs) =
     (if c = CHR ''%'' then
        (case cs of
           a # b # rest \<Rightarrow>
             (case hex_digit a of
                None \<Rightarrow> None
              | Some h \<Rightarrow>
                  (case hex_digit b of
                     None \<Rightarrow> None
                   | Some l \<Rightarrow>
                       (case escapes rest of
                          None \<Rightarrow> None
                        | Some us \<Rightarrow> Some (Inr (16 * h + l) # us))))
         | _ \<Rightarrow> None)
      else (case escapes cs of None \<Rightarrow> None | Some us \<Rightarrow> Some (Inl c # us)))"

text \<open>
  \<^verbatim>\<open>utf8_run n lo hi\<close> reads on with \<^verbatim>\<open>n\<close> continuation bytes still due, the next of
  them within \<^verbatim>\<open>lo\<close> to \<^verbatim>\<open>hi\<close>. The ranges after the lead bytes E0, ED, F0 and F4
  exclude overlong forms, surrogates and code points above 10FFFF.
\<close>

fun utf8_run :: "nat \<Rightarrow> nat \<Rightarrow> nat \<Rightarrow> (char + nat) list \<Rightarrow> bool" where
  "utf8_run n lo hi [] = (n = 0)"
| "utf8_run n lo hi (Inl c # us) = (n = 0 \<and> utf8_run 0 128 191 us)"
| "utf8_run n lo hi (Inr b # us) =
     (if 0 < n then lo \<le> b \<and> b \<le> hi \<and> utf8_run (n - 1) 128 191 us
      else if b < 128 then utf8_run 0 128 191 us
      else if 194 \<le> b \<and> b \<le> 223 then utf8_run 1 128 191 us
      else if b = 224 then utf8_run 2 160 191 us
      else if (225 \<le> b \<and> b \<le> 236) \<or> b = 238 \<or> b = 239 then utf8_run 2 128 191 us
      else if b = 237 then utf8_run 2 128 159 us
      else if b = 240 then utf8_run 3 144 191 us
      else if 241 \<le> b \<and> b \<le> 243 then utf8_run 3 128 191 us
      else if b = 244 then utf8_run 3 128 143 us
      else False)"

definition decodable :: "string \<Rightarrow> bool" where
  "decodable p = (case escapes p of None \<Rightarrow> False | Some us \<Rightarrow> utf8_run 0 128 191 us)"

text \<open>
  An error that no layer handled reaches the framework's final handler: it answers with the
  status of the error and an HTML page, and logs the error unless the environment is
  \<^verbatim>\<open>test\<close>.
\<close>

definition final_handler :: "server \<Rightarrow> js_error \<Rightarrow> nat \<Rightarrow> response \<times> server" where
  "final_handler s err code =
     (\<lparr>status = code, body = JUndefined\<rparr>,
      if NODE_ENV s = ''test'' then s else s\<lparr>console := console s @ [ErrorLog err]\<rparr>)"

section \<open>Middleware and dispatch\<close>

text \<open>
  Lines 25 to 30 install four library middlewares in front of the routes. Their code is
  not part of the repository, so each is a parameter: on a request it calls
  \<^verbatim>\<open>next()\<close>, ends the response itself, or calls \<^verbatim>\<open>next(err)\<close>.
\<close>

datatype mw_result = Next | Ended response | Failed js_error

record libs =
  helmet :: "request \<Rightarrow> mw_result"
  cors :: "js \<Rightarrow> request \<Rightarrow> mw_result"
  express_json :: "request \<Rightarrow> mw_result"
  express_urlencoded :: "request \<Rightarrow> mw_result"

fun run_chain :: "(request \<Rightarrow> mw_result) list \<Rightarrow> request \<Rightarrow> mw_result" where
  "run_chain [] req = Next"
| "run_chain (m # ms) req =
     (case m req of Next \<Rightarrow> run_chain ms req | Ended r \<Rightarrow> Ended r | Failed e \<Rightarrow> Failed e)"

definition middleware :: "libs \<Rightarrow> server \<Rightarrow> request \<Rightarrow> mw_result" where
  "middleware L s req =
     run_chain [helmet L, cors L (cors_options s), express_json L, express_urlencoded L] req"

text \<open>
  One request through the application. An error from a middleware or thrown by a route
  handler skips to the error middleware of line 84. A request that no route takes falls
  through to the catch-all of line 93; when its path does not decode, the catch-all layer
  fails to match with a 400 error, which the error middleware, registered before it, no
  longer sees.
\<close>

definition handle :: "libs \<Rightarrow> server \<Rightarrow> clock \<Rightarrow> request \<Rightarrow> response \<times> server" where
  "handle L s clk req =
     (case middleware L s req of
        Ended r \<Rightarrow> (r, s)
      | Failed e \<Rightarrow> error_handler s e req
      | Next \<Rightarrow>
          (case find_route req of
             None \<Rightarrow>
               (if decodable (pathname (originalUrl req)) then not_found s clk req
                else final_handler s
                       (JsError (''Failed to decode param '' @ [CHR 0x27]
                                 @ pathname (originalUrl req) @ [CHR 0x27])) 400)
           | Some rt \<Rightarrow>
               (case route_handler rt s clk req of
                  (Inr r, s') \<Rightarrow> (r, s')
                | (Inl e, s') \<Rightarrow> error_handler s' e req)))"

text \<open>Reading a field of a response body.\<close>

definition field :: "response \<Rightarrow> string \<Rightarrow> js" where
  "field r k = get_own (body r) k"

section \<open>A process lifetime\<close>

text \<open>
  Between requests the monotonic clock only moves forward: an event either lets some
  nanoseconds pass or is a request arriving, with the wall-clock time it is served at.
  \<^verbatim>\<open>run\<close> serves the requests in order, starting \<^verbatim>\<open>t\<close> nanoseconds after the
  process started, and keeps each request with its response.
\<close>

datatype event = Elapse nat | Arrive request string

fun run :: "libs \<Rightarrow> server \<Rightarrow> nat \<Rightarrow> event list \<Rightarrow> (request \<times> response) list \<times> server" where
  "run L s t [] = ([], s)"
| "run L s t (Elapse d # es) = run L s (t + d) es"
| "run L s t (Arrive req stamp # es) =
     (let (resp, s') = handle L s \<lparr>uptime_ns = t, iso_now = stamp\<rparr> req;
          (out, s'') = run L s' t es
      in ((req, resp) # out, s''))"

text \<open>The calls that the \<^verbatim>\<open>/health\<close> handler served, and the uptime each reported.\<close>

definition served_health :: "libs \<Rightarrow> server \<Rightarrow> request \<Rightarrow> bool" where
  "served_health L s req = (middleware L s req = Next \<and> find_route req = Some Health)"

definition health_uptimes :: "libs \<Rightarrow> server \<Rightarrow> (request \<times> response) list \<Rightarrow> js list" where
  "health_uptimes L s out =
     map (\<lambda>(req, r). field r ''uptime'') (filter (\<lambda>(req, r). served_health L s req) out)"

section \<open>Comparing flag maps\<close>

text \<open>Every entry of the object \<^verbatim>\<open>small\<close> is an entry of \<^verbatim>\<open>big\<close>.\<close>

definition includes_flags :: "js \<Rightarrow> js \<Rightarrow> bool" where
  "includes_flags big small =
     (case small of JObj kvs \<Rightarrow> list_all (\<lambda>(k, v). get_own big k = v) kvs | _ \<Rightarrow> False)"

fun is_bool :: "js \<Rightarrow> bool" where
  "is_bool (JBool b) = True"
| "is_bool v = False"

definition flag_names :: "string list" where
  "flag_names = [''newUI'', ''advancedAnalytics'', ''betaFeatures'']"

section \<open>Concrete runs\<close>

text \<open>
  The middleware as the repository's tests meet it: \<^verbatim>\<open>cors\<close> answers an
  \<^verbatim>\<open>OPTIONS\<close> request itself with 204 (the CORS preflight test), the JSON body parser
  rejects the body \<^verbatim>\<open>invalid json\<close> that the integration test posts, and every other
  request is passed on. A request carries no body here, so every \<^verbatim>\<open>POST\<close> stands for
  that one.
\<close>

definition test_libs :: libs where
  "test_libs =
     \<lparr>helmet = (\<lambda>req. Next),
      cors = (\<lambda>opts req. if req_method req = ''OPTIONS''
                            then Ended \<lparr>status = 204, body = JUndefined\<rparr> else Next),
      express_json = (\<lambda>req. if req_method req = ''POST''
                            then Failed (JsError ''Unexpected token i in JSON at position 0'')
                            else Next),
      express_urlencoded = (\<lambda>req. Next)\<rparr>"

text \<open>The server that starts under \<^verbatim>\<open>NODE_ENV=ghost\<close> with no configuration file.\<close>

definition ghost_server :: server where
  "ghost_server =
     \<lparr>PORT = JNum 3000, NODE_ENV = ''ghost'', LOG_LEVEL = ''info'',
      config = default_config (JNum 3000), cors_options = JObj [],
      penv = [(''NODE_ENV'', ''ghost'')],
      console = [Warn ''No config found for environment: ghost, using defaults'']\<rparr>"

definition noon :: clock where
  "noon = \<lparr>uptime_ns = 2500000000, iso_now = ''2024-05-01T12:00:00.000Z''\<rparr>"

definition get :: "string \<Rightarrow> request" where
  "get url = \<lparr>req_method = ''GET'', originalUrl = url\<rparr>"

text \<open>Servers started without a configuration file, under \<^verbatim>\<open>NODE_ENV=staging\<close> and with
  \<^verbatim>\<open>NODE_ENV\<close> unset.\<close>

definition staging_server :: server where
  "staging_server =
     \<lparr>PORT = JNum 3000, NODE_ENV = ''staging'', LOG_LEVEL = ''info'',
      config = default_config (JNum 3000), cors_options = JObj [],
      penv = [(''NODE_ENV'', ''staging'')],
      console = [Warn ''No config found for environment: staging, using defaults'']\<rparr>"

definition development_server :: server where
  "development_server =
     \<lparr>PORT = JNum 3000, NODE_ENV = ''development'', LOG_LEVEL = ''info'',
      config = default_config (JNum 3000), cors_options = JObj [],
      penv = [],
      console = [Warn ''No config found for environment: development, using defaults'']\<rparr>"

text \<open>
  A staging configuration file whose flags are not all boolean, and the server it starts.
\<close>

definition loose_config :: js where
  "loose_config = JObj [(''features'', JObj [(''newUI'', JStr ''yes''), (''betaFeatures'', JNum 0)])]"

definition loose_server :: server where
  "loose_server =
     \<lparr>PORT = JNum 3000, NODE_ENV = ''staging'', LOG_LEVEL = ''info'',
      config = loose_config, cors_options = JObj [],
      penv = [(''NODE_ENV'', ''staging'')], console = []\<rparr>"

definition post :: "string \<Rightarrow> request" where
  "post url = \<lparr>req_method = ''POST'', originalUrl = url\<rparr>"

definition options :: "string \<Rightarrow> request" where
  "options url = \<lparr>req_method = ''OPTIONS'', originalUrl = url\<rparr>"

text \<open>
  A stretch of a process lifetime: health checks with time passing and an unknown route
  in between.
\<close>

definition morning :: "event list" where
  "morning =
     [Arrive (get ''/health'') ''2024-05-01T08:00:00.000Z'',
      Elapse 1500000000,
      Arrive (get ''/nope'') ''2024-05-01T08:00:01.500Z'',
      Arrive (get ''/health'') ''2024-05-01T08:00:01.500Z'',
      Arrive (get ''/health'') ''2024-05-01T08:00:01.500Z'']"

section \<open>Facts about start-up and dispatch\<close>

lemma startup_ghost: "startup [(''NODE_ENV'', ''ghost'')] [] = Inr ghost_server"
  by (simp add: startup_def Let_def env_or_def getenv_def js_or_def load_config_def require_config_def
      get_prop_def opt_prop_def default_config_def ghost_server_def)

lemma middleware_test_libs_get: "middleware test_libs s (get url) = Next"
  by (simp add: middleware_def test_libs_def get_def)

lemma route_health: "handles_method (req_method req) \<Longrightarrow> pathname (originalUrl req) = ''/health'' \<Longrightarrow> find_route req = Some Health"
  by (simp add: find_route_def path_matches_def strip_slash_def to_lower_def)
lemma route_features: "handles_method (req_method req) \<Longrightarrow> pathname (originalUrl req) = ''/features'' \<Longrightarrow> find_route req = Some Features"
  by (simp add: find_route_def path_matches_def strip_slash_def to_lower_def)
lemma route_root: "handles_method (req_method req) \<Longrightarrow> pathname (originalUrl req) = ''/'' \<Longrightarrow> find_route req = Some Root"
  by (simp add: find_route_def path_matches_def strip_slash_def to_lower_def)
lemma route_api_status: "handles_method (req_method req) \<Longrightarrow> pathname (originalUrl req) = ''/api/status'' \<Longrightarrow> find_route req = Some ApiStatus"
  by (simp add: find_route_def path_matches_def strip_slash_def to_lower_def)

lemma startup_Inr:
  assumes "startup pe dir = Inr s"
  shows "PORT s = js_or (getenv pe ''PORT'') (JNum 3000)"
    and "NODE_ENV s = env_or pe ''NODE_ENV'' ''development''"
    and "LOG_LEVEL s = env_or pe ''LOG_LEVEL'' ''info''"
    and "config s = fst (load_config dir (NODE_ENV s) (PORT s))"
    and "console s = snd (load_config dir (NODE_ENV s) (PORT s))"
    and "penv s = pe"
    and "\<not> nullish (config s)"
  using assms
  by (auto simp: startup_def Let_def get_prop_def split: prod.splits if_splits)


lemma handle_health:
  assumes "middleware L s req = Next" "find_route req = Some Health"
  shows "handle L s clk req =
     (\<lparr>status = 200,
       body = JObj [(''status'', JStr ''healthy''),
                    (''timestamp'', JStr (iso_now clk)),
                    (''environment'', JStr (NODE_ENV s)),
                    (''version'', JStr (env_or (penv s) ''npm_package_version'' ''1.0.0'')),
                    (''uptime'', JNum (of_nat (uptime_ns clk) / 1000000000)),
                    (''config'', JObj [(''logLevel'', JStr (LOG_LEVEL s)),
                                       (''port'', PORT s)])]\<rparr>, s)"
  using assms by (simp add: handle_def health_def)

lemma handle_features:
  assumes "middleware L s req = Next" "find_route req = Some Features" "\<not> nullish (config s)"
  shows "handle L s clk req =
     (\<lparr>status = 200,
       body = JObj [(''environment'', JStr (NODE_ENV s)),
                    (''features'', js_or (get_own (config s) ''features'') (JObj [])),
                    (''message'', JStr ''Feature flags configuration'')]\<rparr>, s)"
  using assms by (simp add: handle_def features_def get_prop_def)

lemma handle_root:
  assumes "middleware L s req = Next" "find_route req = Some Root" "\<not> nullish (config s)"
  shows "handle L s clk req =
     (\<lparr>status = 200,
       body = JObj [(''message'', JStr ''Welcome to Trunk-Based Development CI/CD Pipeline!''),
                    (''environment'', JStr (NODE_ENV s)),
                    (''timestamp'', JStr (iso_now clk)),
                    (''logLevel'', JStr (LOG_LEVEL s)),
                    (''features'',
                       JObj [(''newUI'', js_or (opt_prop (get_own (config s) ''features'') ''newUI'') (JBool False)),
                             (''advancedAnalytics'', js_or (opt_prop (get_own (config s) ''features'') ''advancedAnalytics'') (JBool False)),
                             (''betaFeatures'', js_or (opt_prop (get_own (config s) ''features'') ''betaFeatures'') (JBool False))])]\<rparr>, s)"
  using assms by (simp add: handle_def root_def flag_def get_prop_def)

lemma handle_api_status:
  assumes "middleware L s req = Next" "find_route req = Some ApiStatus" "\<not> nullish (config s)"
  shows "handle L s clk req =
     (\<lparr>status = 200,
       body = JObj [(''status'', JStr ''operational''),
                    (''environment'', JStr (NODE_ENV s)),
                    (''config'', js_or (get_own (config s) ''app'') (JObj [])),
                    (''timestamp'', JStr (iso_now clk))]\<rparr>, s)"
  using assms by (simp add: handle_def api_status_def get_prop_def)

lemma load_config_fallback:
  assumes "map_of dir env = None \<or> map_of dir env = Some Malformed"
  shows "load_config dir env port =
     (default_config port, [Warn (''No config found for environment: '' @ env @ '', using defaults'')])"
  using assms by (auto simp: load_config_def require_config_def)

lemma startup_fallback:
  assumes "map_of dir (env_or pe ''NODE_ENV'' ''development'') = None
         \<or> map_of dir (env_or pe ''NODE_ENV'' ''development'') = Some Malformed"
  shows "startup pe dir =
     Inr \<lparr>PORT = js_or (getenv pe ''PORT'') (JNum 3000),
          NODE_ENV = env_or pe ''NODE_ENV'' ''development'',
          LOG_LEVEL = env_or pe ''LOG_LEVEL'' ''info'',
          config = default_config (js_or (getenv pe ''PORT'') (JNum 3000)),
          cors_options = JObj [], penv = pe,
          console = [Warn (''No config found for environment: ''
                           @ env_or pe ''NODE_ENV'' ''development'' @ '', using defaults'')]\<rparr>"
  using load_config_fallback[OF assms]
  by (simp add: startup_def Let_def get_prop_def opt_prop_def js_or_def default_config_def)

lemma startup_staging: "startup [(''NODE_ENV'', ''staging'')] [] = Inr staging_server"
  by (simp add: startup_def Let_def env_or_def getenv_def js_or_def load_config_def require_config_def
      get_prop_def opt_prop_def default_config_def staging_server_def)

lemma startup_development: "startup [] [] = Inr development_server"
  by (simp add: startup_def Let_def env_or_def getenv_def js_or_def load_config_def require_config_def
      get_prop_def opt_prop_def default_config_def development_server_def)

lemma startup_loose:
  "startup [(''NODE_ENV'', ''staging'')] [(''staging'', Parsed loose_config)] = Inr loose_server"
  by (simp add: startup_def Let_def env_or_def getenv_def js_or_def load_config_def require_config_def
      get_prop_def opt_prop_def loose_config_def loose_server_def)

lemma route_handler_state: "snd (route_handler rt s clk req) = s"
  by (cases rt)
     (simp_all add: health_def features_def root_def api_status_def flag_def
        split: sum.splits)

lemma get_routes:
  "find_route (get ''/'') = Some Root"
  "find_route (get ''/features'') = Some Features"
  "find_route (get ''/health'') = Some Health"
  "find_route (get ''/api/status'') = Some ApiStatus"
  by (simp_all add: route_root route_features route_health route_api_status get_def
      handles_method_def pathname_def)

lemma bool_values:
  assumes "list_all (\<lambda>(k, v). is_bool v) kvs"
  shows "is_bool (js_or (get_own (JObj kvs) f) (JBool False))"
proof (cases "map_of kvs f")
  case None
  then show ?thesis by (simp add: js_or_def)
next
  case (Some v)
  then have "(f, v) \<in> set kvs" by (rule map_of_SomeD)
  with assms have "is_bool v" by (auto simp: list_all_iff)
  with Some show ?thesis by (simp add: js_or_def)
qed

lemma truthy_flag_stored:
  assumes "js_or (opt_prop feats f) (JBool False) \<noteq> JBool False"
  shows "get_own (js_or feats (JObj [])) f = js_or (opt_prop feats f) (JBool False)"
proof -
  have t: "truthy (opt_prop feats f)"
    using assms by (simp add: js_or_def split: if_splits)
  then obtain kvs where "feats = JObj kvs"
    by (cases feats) (simp_all add: opt_prop_def)
  then show ?thesis using t by (simp add: js_or_def opt_prop_def)
qed

lemma error_handler_response:
  "fst (error_handler s e req) =
     \<lparr>status = 500,
      body = JObj [(''error'', JStr ''Internal Server Error''),
                   (''message'', JStr (if NODE_ENV s = ''development'' then err_message e
                                       else ''Something went wrong''))]\<rparr>"
  by (simp add: error_handler_def)

lemma find_route_None:
  assumes "\<not> (handles_method (req_method req)
             \<and> (path_matches ''/health'' (pathname (originalUrl req))
                \<or> path_matches ''/features'' (pathname (originalUrl req))
                \<or> path_matches ''/'' (pathname (originalUrl req))
                \<or> path_matches ''/api/status'' (pathname (originalUrl req))))"
  shows "find_route req = None"
  using assms by (auto simp: find_route_def Let_def)

lemma handle_frame:
  "snd (handle L s clk req) = s\<lparr>console := console (snd (handle L s clk req))\<rparr>"
proof (cases "middleware L s req")
  case Next
  show ?thesis
  proof (cases "find_route req")
    case None
    with Next show ?thesis by (simp add: handle_def not_found_def final_handler_def)
  next
    case (Some rt)
    obtain r where r: "route_handler rt s clk req = (r, s)"
      using route_handler_state[of rt s clk req] by (cases "route_handler rt s clk req") simp
    show ?thesis
      using Next Some r by (cases r) (simp_all add: handle_def error_handler_def)
  qed
next
  case (Ended r)
  then show ?thesis by (simp add: handle_def)
next
  case (Failed e)
  then show ?thesis by (simp add: handle_def error_handler_def)
qed

lemma handle_fields:
  "PORT (snd (handle L s clk req)) = PORT s"
  "NODE_ENV (snd (handle L s clk req)) = NODE_ENV s"
  "LOG_LEVEL (snd (handle L s clk req)) = LOG_LEVEL s"
  "config (snd (handle L s clk req)) = config s"
  "cors_options (snd (handle L s clk req)) = cors_options s"
  "penv (snd (handle L s clk req)) = penv s"
  by (subst handle_frame, simp)+

lemma run_fields:
  "PORT (snd (run L s t es)) = PORT s
   \<and> NODE_ENV (snd (run L s t es)) = NODE_ENV s
   \<and> LOG_LEVEL (snd (run L s t es)) = LOG_LEVEL s
   \<and> config (snd (run L s t es)) = config s
   \<and> cors_options (snd (run L s t es)) = cors_options s
   \<and> penv (snd (run L s t es)) = penv s"
proof (induction L s t es rule: run.induct)
  case (1 L s t)
  show ?case by simp
next
  case (2 L s t d es)
  then show ?case by simp
next
  case (3 L s t req stamp es)
  obtain resp s' where h: "handle L s \<lparr>uptime_ns = t, iso_now = stamp\<rparr> req = (resp, s')"
    by (cases "handle L s \<lparr>uptime_ns = t, iso_now = stamp\<rparr> req")
  obtain out s'' where r: "run L s' t es = (out, s'')"
    by (cases "run L s' t es")
  have "snd (run L s t (Arrive req stamp # es)) = s''"
    using h r by simp
  moreover have "PORT s'' = PORT s' \<and> NODE_ENV s'' = NODE_ENV s' \<and> LOG_LEVEL s'' = LOG_LEVEL s'
      \<and> config s'' = config s' \<and> cors_options s'' = cors_options s' \<and> penv s'' = penv s'"
    using "3.IH"[OF h[symmetric] refl] r by simp
  moreover have "PORT s' = PORT s \<and> NODE_ENV s' = NODE_ENV s \<and> LOG_LEVEL s' = LOG_LEVEL s
      \<and> config s' = config s \<and> cors_options s' = cors_options s \<and> penv s' = penv s"
    using handle_fields[of L s "\<lparr>uptime_ns = t, iso_now = stamp\<rparr>" req] h by simp
  ultimately show ?case by simp
qed

lemma served_health_cong:
  assumes "cors_options s' = cors_options s"
  shows "served_health L s' req = served_health L s req"
  using assms by (simp add: served_health_def middleware_def)

lemma served_health_uptime:
  assumes "served_health L s req"
  shows "field (fst (handle L s clk req)) ''uptime'' = JNum (of_nat (uptime_ns clk) / 1000000000)"
proof -
  have "middleware L s req = Next" "find_route req = Some Health"
    using assms by (simp_all add: served_health_def)
  from handle_health[OF this] show ?thesis by (simp add: field_def)
qed

lemma uptimes_from:
  assumes "cors_options s = cors_options s0"
  shows "\<exists>us. health_uptimes L s0 (fst (run L s t es)) = map JNum us
            \<and> sorted us \<and> (\<forall>u\<in>set us. of_nat t / 1000000000 \<le> u)"
  using assms
proof (induction es arbitrary: s t)
  case Nil
  show ?case by (simp add: health_uptimes_def)
next
  case (Cons ev es)
  show ?case
  proof (cases ev)
    case (Elapse d)
    from Cons.IH[OF Cons.prems, of "t + d"] obtain us where
      us: "health_uptimes L s0 (fst (run L s (t + d) es)) = map JNum us" "sorted us"
          "\<forall>u\<in>set us. of_nat (t + d) / 1000000000 \<le> u"
      by blast
    have "(of_nat t :: rat) / 1000000000 \<le> of_nat (t + d) / 1000000000"
      by (simp add: divide_right_mono)
    with us(3) have "\<forall>u\<in>set us. of_nat t / 1000000000 \<le> u"
      by (meson order_trans)
    with us(1,2) show ?thesis using Elapse by auto
  next
    case (Arrive req stamp)
    let ?clk = "\<lparr>uptime_ns = t, iso_now = stamp\<rparr>"
    obtain resp s' where h: "handle L s ?clk req = (resp, s')"
      by (cases "handle L s ?clk req")
    have co: "cors_options s' = cors_options s0"
      using handle_fields(5)[of L s ?clk req] h Cons.prems by simp
    from Cons.IH[OF co, of t] obtain us where
      us: "health_uptimes L s0 (fst (run L s' t es)) = map JNum us" "sorted us"
          "\<forall>u\<in>set us. of_nat t / 1000000000 \<le> u"
      by blast
    have out: "fst (run L s t (ev # es)) = (req, resp) # fst (run L s' t es)"
      using Arrive h by (simp add: split_beta)
    show ?thesis
    proof (cases "served_health L s0 req")
      case True
      then have "served_health L s req"
        using served_health_cong[OF Cons.prems] by simp
      from served_health_uptime[OF this, of ?clk] h
      have "field resp ''uptime'' = JNum (of_nat t / 1000000000)" by simp
      then have "health_uptimes L s0 (fst (run L s t (ev # es)))
                   = map JNum ((of_nat t / 1000000000) # us)"
        using out us(1) True by (simp add: health_uptimes_def)
      moreover have "sorted ((of_nat t / 1000000000) # us)"
        using us(2,3) by simp
      ultimately show ?thesis using us(3) by (metis order_refl set_ConsD)
    next
      case False
      then have "health_uptimes L s0 (fst (run L s t (ev # es))) = map JNum us"
        using out us(1) by (simp add: health_uptimes_def)
      then show ?thesis using us(2,3) by blast
    qed
  qed
qed

lemma get_nope: "find_route (get ''/nope'') = None"
  by code_simp

lemma handle_unrouted:
  assumes "middleware L s req = Next" "find_route req = None"
    and "decodable (pathname (originalUrl req))"
  shows "handle L s clk req = not_found s clk req"
  using assms by (simp add: handle_def)

lemma handle_undecodable:
  assumes "middleware L s req = Next" "find_route req = None"
    and "\<not> decodable (pathname (originalUrl req))"
  shows "status (fst (handle L s clk req)) = 400"
  using assms by (simp add: handle_def final_handler_def)

lemma decodable_nope: "decodable (pathname (originalUrl (get ''/nope'')))"
  by code_simp

lemma morning_uptimes:
  "health_uptimes test_libs ghost_server (fst (run test_libs ghost_server 2500000000 morning))
     = map JNum [5 / 2, 4, 4]"
  by (simp add: morning_def health_uptimes_def served_health_def middleware_test_libs_get
      get_routes get_nope decodable_nope handle_health handle_unrouted not_found_def field_def)

section \<open>The claims\<close>

text \<open>
  C1. Whenever the configuration file of the resolved environment name is missing or
  malformed, start-up succeeds, the loader has written exactly one warning to the console
  and returned the complete built-in default record (empty features map, logging level
  \<^verbatim>\<open>info\<close>), and every \<^verbatim>\<open>GET /health\<close> that the middleware passes on is answered
  200 with \<^verbatim>\<open>status\<close> equal to \<^verbatim>\<open>healthy\<close>.
\<close>

theorem C1_missing_config_defaults:
  assumes "map_of dir (env_or pe ''NODE_ENV'' ''development'') = None
         \<or> map_of dir (env_or pe ''NODE_ENV'' ''development'') = Some Malformed"
  shows "\<exists>s. startup pe dir = Inr s
           \<and> NODE_ENV s = env_or pe ''NODE_ENV'' ''development''
           \<and> load_config dir (NODE_ENV s) (PORT s) =
               (default_config (PORT s),
                [Warn (''No config found for environment: '' @ NODE_ENV s @ '', using defaults'')])
           \<and> config s = default_config (PORT s)
           \<and> console s = [Warn (''No config found for environment: '' @ NODE_ENV s @ '', using defaults'')]
           \<and> get_own (config s) ''features'' = JObj []
           \<and> get_own (get_own (config s) ''logging'') ''level'' = JStr ''info''
           \<and> (\<forall>L clk req.
                 req_method req = ''GET'' \<and> pathname (originalUrl req) = ''/health''
                 \<and> middleware L s req = Next \<longrightarrow>
                 status (fst (handle L s clk req)) = 200
                 \<and> field (fst (handle L s clk req)) ''status'' = JStr ''healthy'')"
proof -
  let ?env = "env_or pe ''NODE_ENV'' ''development''"
  let ?port = "js_or (getenv pe ''PORT'') (JNum 3000)"
  obtain s where s: "startup pe dir = Inr s"
    using startup_fallback[OF assms] by blast
  have env: "NODE_ENV s = ?env" and port: "PORT s = ?port"
    using startup_Inr[OF s] by simp_all
  have lc: "load_config dir (NODE_ENV s) (PORT s) =
      (default_config (PORT s),
       [Warn (''No config found for environment: '' @ NODE_ENV s @ '', using defaults'')])"
    using load_config_fallback[of dir "NODE_ENV s" "PORT s"] assms env by simp
  have cfg: "config s = default_config (PORT s)"
    using startup_Inr(4)[OF s] lc by simp
  have con: "console s = [Warn (''No config found for environment: '' @ NODE_ENV s @ '', using defaults'')]"
    using startup_Inr(5)[OF s] lc by simp
  have hl: "status (fst (handle L s clk req)) = 200
          \<and> field (fst (handle L s clk req)) ''status'' = JStr ''healthy''"
    if "req_method req = ''GET''" "pathname (originalUrl req) = ''/health''" "middleware L s req = Next"
    for L clk req
  proof -
    have "find_route req = Some Health"
      using that by (simp add: route_health handles_method_def)
    then show ?thesis
      using handle_health[OF that(3)] by (simp add: field_def)
  qed
  show ?thesis
    using s env lc cfg con hl by (intro exI[of _ s]) (simp add: default_config_def)
qed

theorem C1_missing_config_defaults_witness:
  "startup [(''NODE_ENV'', ''ghost'')] [] = Inr ghost_server
   \<and> console ghost_server = [Warn ''No config found for environment: ghost, using defaults'']
   \<and> status (fst (handle test_libs ghost_server noon (get ''/health''))) = 200
   \<and> field (fst (handle test_libs ghost_server noon (get ''/health''))) ''status'' = JStr ''healthy''"
proof -
  have hyp: "map_of [] (env_or [(''NODE_ENV'', ''ghost'')] ''NODE_ENV'' ''development'') = None
     \<or> map_of [] (env_or [(''NODE_ENV'', ''ghost'')] ''NODE_ENV'' ''development'') = Some Malformed"
    by simp
  from C1_missing_config_defaults[OF hyp] obtain s where
    s: "startup [(''NODE_ENV'', ''ghost'')] [] = Inr s"
    and con: "console s = [Warn (''No config found for environment: '' @ NODE_ENV s @ '', using defaults'')]"
    and env: "NODE_ENV s = env_or [(''NODE_ENV'', ''ghost'')] ''NODE_ENV'' ''development''"
    and h: "\<And>L clk req. req_method req = ''GET'' \<and> pathname (originalUrl req) = ''/health''
                 \<and> middleware L s req = Next \<Longrightarrow>
                 status (fst (handle L s clk req)) = 200
                 \<and> field (fst (handle L s clk req)) ''status'' = JStr ''healthy''"
    by blast
  have eq: "s = ghost_server"
    using s startup_ghost by simp
  have "req_method (get ''/health'') = ''GET'' \<and> pathname (originalUrl (get ''/health'')) = ''/health''
        \<and> middleware test_libs s (get ''/health'') = Next"
    by (simp add: get_def pathname_def middleware_def test_libs_def)
  from h[OF this] show ?thesis
    using s con env eq by (simp add: env_or_def)
qed

text \<open>
  C2 as stated fails: under \<^verbatim>\<open>NODE_ENV=ghost\<close> with no configuration file,
  \<^verbatim>\<open>GET /api/status\<close> answers 200 and \<^verbatim>\<open>operational\<close>, but its \<^verbatim>\<open>config\<close>
  field is the \<^verbatim>\<open>app\<close> record of the built-in default, not the empty object.
\<close>

theorem C2_counterexample:
  "startup [(''NODE_ENV'', ''ghost'')] [] = Inr ghost_server
   \<and> middleware test_libs ghost_server (get ''/api/status'') = Next
   \<and> status (fst (handle test_libs ghost_server noon (get ''/api/status''))) = 200
   \<and> field (fst (handle test_libs ghost_server noon (get ''/api/status''))) ''config''
       = JObj [(''name'', JStr ''ci-test''), (''port'', JNum 3000)]
   \<and> field (fst (handle test_libs ghost_server noon (get ''/api/status''))) ''config'' \<noteq> JObj []"
proof -
  have r: "find_route (get ''/api/status'') = Some ApiStatus"
    by (simp add: route_api_status get_def handles_method_def pathname_def)
  have n: "\<not> nullish (config ghost_server)"
    by (simp add: ghost_server_def default_config_def)
  show ?thesis
    using handle_api_status[OF middleware_test_libs_get r n, where clk = noon]
    by (simp add: startup_ghost middleware_test_libs_get field_def ghost_server_def
        default_config_def js_or_def)
qed

text \<open>
  C2, amended. If the environment name is \<^verbatim>\<open>ghost\<close> and no configuration file exists
  for it, start-up succeeds and every \<^verbatim>\<open>GET /api/status\<close> that the middleware passes
  on is answered 200 with \<^verbatim>\<open>status\<close> equal to \<^verbatim>\<open>operational\<close> and \<^verbatim>\<open>config\<close>
  equal to the default \<^verbatim>\<open>app\<close> record: name \<^verbatim>\<open>ci-test\<close> and the resolved port.
\<close>

theorem C2_ghost_status_reports_default_app:
  assumes "map_of pe ''NODE_ENV'' = Some ''ghost''" and "map_of dir ''ghost'' = None"
  shows "\<exists>s. startup pe dir = Inr s
           \<and> (\<forall>L clk req.
                 req_method req = ''GET'' \<and> pathname (originalUrl req) = ''/api/status''
                 \<and> middleware L s req = Next \<longrightarrow>
                 status (fst (handle L s clk req)) = 200
                 \<and> field (fst (handle L s clk req)) ''status'' = JStr ''operational''
                 \<and> field (fst (handle L s clk req)) ''config''
                     = JObj [(''name'', JStr ''ci-test''), (''port'', PORT s)])"
proof -
  have env: "env_or pe ''NODE_ENV'' ''development'' = ''ghost''"
    using assms(1) by (simp add: env_or_def)
  have "map_of dir (env_or pe ''NODE_ENV'' ''development'') = None
      \<or> map_of dir (env_or pe ''NODE_ENV'' ''development'') = Some Malformed"
    using assms(2) env by simp
  from startup_fallback[OF this] obtain s where s: "startup pe dir = Inr s"
    and cfg: "config s = default_config (PORT s)"
    by (metis server.select_convs(1,4))
  have n: "\<not> nullish (config s)"
    using cfg by (simp add: default_config_def)
  have "status (fst (handle L s clk req)) = 200
      \<and> field (fst (handle L s clk req)) ''status'' = JStr ''operational''
      \<and> field (fst (handle L s clk req)) ''config'' = JObj [(''name'', JStr ''ci-test''), (''port'', PORT s)]"
    if "req_method req = ''GET''" "pathname (originalUrl req) = ''/api/status''" "middleware L s req = Next"
    for L clk req
  proof -
    have "find_route req = Some ApiStatus"
      using that by (simp add: route_api_status handles_method_def)
    from handle_api_status[OF that(3) this n] show ?thesis
      by (simp add: field_def cfg default_config_def js_or_def)
  qed
  then show ?thesis using s by blast
qed

theorem C2_ghost_status_reports_default_app_witness:
  "startup [(''NODE_ENV'', ''ghost'')] [] = Inr ghost_server
   \<and> field (fst (handle test_libs ghost_server noon (get ''/api/status''))) ''status'' = JStr ''operational''
   \<and> field (fst (handle test_libs ghost_server noon (get ''/api/status''))) ''config''
       = JObj [(''name'', JStr ''ci-test''), (''port'', PORT ghost_server)]"
proof -
  have "map_of [(''NODE_ENV'', ''ghost'')] ''NODE_ENV'' = Some ''ghost''" and "map_of [] ''ghost'' = (None :: config_file option)"
    by simp_all
  from C2_ghost_status_reports_default_app[OF this] obtain s where
    s: "startup [(''NODE_ENV'', ''ghost'')] [] = Inr s"
    and h: "\<And>L clk req. req_method req = ''GET'' \<and> pathname (originalUrl req) = ''/api/status''
                 \<and> middleware L s req = Next \<Longrightarrow>
                 status (fst (handle L s clk req)) = 200
                 \<and> field (fst (handle L s clk req)) ''status'' = JStr ''operational''
                 \<and> field (fst (handle L s clk req)) ''config''
                     = JObj [(''name'', JStr ''ci-test''), (''port'', PORT s)]"
    by blast
  have eq: "s = ghost_server"
    using s startup_ghost by simp
  have "req_method (get ''/api/status'') = ''GET'' \<and> pathname (originalUrl (get ''/api/status'')) = ''/api/status''
        \<and> middleware test_libs s (get ''/api/status'') = Next"
    by (simp add: get_def pathname_def middleware_def test_libs_def)
  from h[OF this] show ?thesis
    using s eq by simp
qed

text \<open>
  C3 as stated fails twice. Under the default record \<^verbatim>\<open>GET /\<close> reports the three
  flags as \<^verbatim>\<open>false\<close> while \<^verbatim>\<open>GET /features\<close> returns the empty map, which does not
  include them; and a flag stored as the string \<^verbatim>\<open>yes\<close> is reported by \<^verbatim>\<open>GET /\<close>
  as that string.
\<close>

theorem C3_counterexample:
  "startup [(''NODE_ENV'', ''ghost'')] [] = Inr ghost_server
   \<and> field (fst (handle test_libs ghost_server noon (get ''/''))) ''features''
       = JObj [(''newUI'', JBool False), (''advancedAnalytics'', JBool False),
               (''betaFeatures'', JBool False)]
   \<and> field (fst (handle test_libs ghost_server noon (get ''/features''))) ''features'' = JObj []
   \<and> \<not> includes_flags
         (field (fst (handle test_libs ghost_server noon (get ''/features''))) ''features'')
         (field (fst (handle test_libs ghost_server noon (get ''/''))) ''features'')
   \<and> startup [(''NODE_ENV'', ''staging'')] [(''staging'', Parsed loose_config)] = Inr loose_server
   \<and> get_own (field (fst (handle test_libs loose_server noon (get ''/''))) ''features'') ''newUI''
       = JStr ''yes''
   \<and> \<not> is_bool (get_own (field (fst (handle test_libs loose_server noon (get ''/''))) ''features'') ''newUI'')"
proof -
  have n: "\<not> nullish (config ghost_server)" "\<not> nullish (config loose_server)"
    by (simp_all add: ghost_server_def default_config_def loose_server_def loose_config_def)
  have r: "field (fst (handle test_libs ghost_server noon (get ''/''))) ''features''
       = JObj [(''newUI'', JBool False), (''advancedAnalytics'', JBool False),
               (''betaFeatures'', JBool False)]"
    using handle_root[OF middleware_test_libs_get get_routes(1) n(1), where clk = noon]
    by (simp add: field_def ghost_server_def default_config_def js_or_def opt_prop_def)
  have f: "field (fst (handle test_libs ghost_server noon (get ''/features''))) ''features'' = JObj []"
    using handle_features[OF middleware_test_libs_get get_routes(2) n(1), where clk = noon]
    by (simp add: field_def ghost_server_def default_config_def js_or_def)
  have l: "get_own (field (fst (handle test_libs loose_server noon (get ''/''))) ''features'') ''newUI''
       = JStr ''yes''"
    using handle_root[OF middleware_test_libs_get get_routes(1) n(2), where clk = noon]
    by (simp add: field_def loose_server_def loose_config_def js_or_def opt_prop_def)
  show ?thesis
    by (simp add: r f l startup_ghost startup_loose includes_flags_def)
qed

text \<open>
  C3, amended. For every configuration the server started with and each of the three
  flags: a flag that \<^verbatim>\<open>GET /\<close> reports with a value other than \<^verbatim>\<open>false\<close> is held
  with the same value by the features value of \<^verbatim>\<open>GET /features\<close>; and when the stored
  features value is an object whose values are all boolean, \<^verbatim>\<open>GET /features\<close> returns
  that object and the flag reported by \<^verbatim>\<open>GET /\<close> is boolean.
\<close>

theorem C3_truthy_flags_included:
  assumes "startup pe dir = Inr s"
    and "req_method rq = ''GET''" "pathname (originalUrl rq) = ''/''" "middleware L s rq = Next"
    and "req_method fq = ''GET''" "pathname (originalUrl fq) = ''/features''" "middleware L s fq = Next"
    and "f \<in> set flag_names"
  shows "(get_own (field (fst (handle L s c1 rq)) ''features'') f \<noteq> JBool False \<longrightarrow>
            get_own (field (fst (handle L s c2 fq)) ''features'') f
              = get_own (field (fst (handle L s c1 rq)) ''features'') f)
       \<and> (\<forall>kvs. get_own (config s) ''features'' = JObj kvs \<and> list_all (\<lambda>(k, v). is_bool v) kvs \<longrightarrow>
            field (fst (handle L s c2 fq)) ''features'' = JObj kvs
            \<and> is_bool (get_own (field (fst (handle L s c1 rq)) ''features'') f))"
proof -
  let ?feats = "get_own (config s) ''features''"
  have n: "\<not> nullish (config s)" by (rule startup_Inr(7)[OF assms(1)])
  have rr: "find_route rq = Some Root"
    using assms(2,3) by (simp add: route_root handles_method_def)
  have rf: "find_route fq = Some Features"
    using assms(5,6) by (simp add: route_features handles_method_def)
  have R: "get_own (field (fst (handle L s c1 rq)) ''features'') f
             = js_or (opt_prop ?feats f) (JBool False)"
    using handle_root[OF assms(4) rr n, of c1] assms(8)
    by (auto simp: field_def flag_names_def)
  have F: "field (fst (handle L s c2 fq)) ''features'' = js_or ?feats (JObj [])"
    using handle_features[OF assms(7) rf n, of c2] by (simp add: field_def)
  have a: "get_own (field (fst (handle L s c1 rq)) ''features'') f \<noteq> JBool False \<longrightarrow>
            get_own (field (fst (handle L s c2 fq)) ''features'') f
              = get_own (field (fst (handle L s c1 rq)) ''features'') f"
    unfolding R F using truthy_flag_stored by blast
  have b: "field (fst (handle L s c2 fq)) ''features'' = JObj kvs
            \<and> is_bool (get_own (field (fst (handle L s c1 rq)) ''features'') f)"
    if "?feats = JObj kvs" "list_all (\<lambda>(k, v). is_bool v) kvs" for kvs
    unfolding R F using that bool_values[OF that(2), of f]
    by (simp add: js_or_def opt_prop_def)
  show ?thesis using a b by blast
qed

theorem C3_truthy_flags_included_witness:
  "get_own (field (fst (handle test_libs loose_server noon (get ''/features''))) ''features'') ''newUI''
     = get_own (field (fst (handle test_libs loose_server noon (get ''/''))) ''features'') ''newUI''
   \<and> get_own (field (fst (handle test_libs loose_server noon (get ''/''))) ''features'') ''newUI''
     = JStr ''yes''"
proof -
  have n: "\<not> nullish (config loose_server)"
    by (simp add: loose_server_def loose_config_def)
  have l: "get_own (field (fst (handle test_libs loose_server noon (get ''/''))) ''features'') ''newUI''
       = JStr ''yes''"
    using handle_root[OF middleware_test_libs_get get_routes(1) n, where clk = noon]
    by (simp add: field_def loose_server_def loose_config_def js_or_def opt_prop_def)
  have "''newUI'' \<in> set flag_names" by (simp add: flag_names_def)
  from C3_truthy_flags_included[OF startup_loose _ _ middleware_test_libs_get _ _
      middleware_test_libs_get this, of "''/''" "''/features''" noon noon]
  show ?thesis using l by (simp add: get_def pathname_def)
qed

text \<open>
  C4 as stated fails: under \<^verbatim>\<open>NODE_ENV=staging\<close>, which is not production, the error
  middleware given an error with the message \<^verbatim>\<open>boom\<close> answers 500 with the generic
  message, not with \<^verbatim>\<open>boom\<close>.
\<close>

theorem C4_counterexample:
  "startup [(''NODE_ENV'', ''staging'')] [] = Inr staging_server
   \<and> NODE_ENV staging_server \<noteq> ''production''
   \<and> status (fst (error_handler staging_server (JsError ''boom'') (get ''/''))) = 500
   \<and> field (fst (error_handler staging_server (JsError ''boom'') (get ''/''))) ''message''
       = JStr ''Something went wrong''
   \<and> field (fst (error_handler staging_server (JsError ''boom'') (get ''/''))) ''message''
       \<noteq> JStr (err_message (JsError ''boom''))"
  by (simp add: startup_staging error_handler_response field_def staging_server_def)

text \<open>
  C4, amended. For every error handed to the central error handler, the handler answers
  500 with \<^verbatim>\<open>error\<close> equal to \<^verbatim>\<open>Internal Server Error\<close>; its \<^verbatim>\<open>message\<close> is the
  error's message when the environment name is exactly \<^verbatim>\<open>development\<close>, and
  \<^verbatim>\<open>Something went wrong\<close> for every other environment name, production included.
\<close>

theorem C4_error_message_only_in_development:
  "status (fst (error_handler s e req)) = 500
   \<and> field (fst (error_handler s e req)) ''error'' = JStr ''Internal Server Error''
   \<and> (NODE_ENV s = ''development'' \<longrightarrow>
        field (fst (error_handler s e req)) ''message'' = JStr (err_message e))
   \<and> (NODE_ENV s \<noteq> ''development'' \<longrightarrow>
        field (fst (error_handler s e req)) ''message'' = JStr ''Something went wrong'')
   \<and> (NODE_ENV s = ''production'' \<longrightarrow>
        field (fst (error_handler s e req)) ''message'' = JStr ''Something went wrong'')"
  by (simp add: error_handler_response field_def)

theorem C4_error_message_only_in_development_witness:
  "startup [] [] = Inr development_server
   \<and> NODE_ENV development_server = ''development''
   \<and> status (fst (error_handler development_server (JsError ''boom'') (get ''/''))) = 500
   \<and> field (fst (error_handler development_server (JsError ''boom'') (get ''/''))) ''message''
       = JStr ''boom''"
  using C4_error_message_only_in_development[of development_server "JsError ''boom''" "get ''/''"]
  by (simp add: startup_development development_server_def)

text \<open>
  C5 as stated fails: \<^verbatim>\<open>/nope\<close> and \<^verbatim>\<open>/%ff\<close> match no route, yet with the
  middleware of the repository's tests \<^verbatim>\<open>OPTIONS /nope\<close> is answered 204 by
  \<^verbatim>\<open>cors\<close> before the catch-all is reached, and \<^verbatim>\<open>GET /%ff\<close>, whose path does not
  decode, is answered 400 by the framework.
\<close>

theorem C5_counterexample:
  "find_route (get ''/nope'') = None
   \<and> find_route (options ''/nope'') = None
   \<and> status (fst (handle test_libs ghost_server noon (options ''/nope''))) = 204
   \<and> find_route (get ''/%ff'') = None
   \<and> middleware test_libs ghost_server (get ''/%ff'') = Next
   \<and> status (fst (handle test_libs ghost_server noon (get ''/%ff''))) = 400"
proof -
  have a: "find_route (get ''/nope'') = None" by code_simp
  have b: "find_route (options ''/nope'') = None" by code_simp
  have c: "find_route (get ''/%ff'') = None" by code_simp
  have d: "handle test_libs ghost_server noon (options ''/nope'')
             = (\<lparr>status = 204, body = JUndefined\<rparr>, ghost_server)"
    by (simp add: handle_def middleware_def test_libs_def options_def)
  have e: "\<not> decodable (pathname (originalUrl (get ''/%ff'')))" by code_simp
  show ?thesis
    by (simp add: a b c d middleware_test_libs_get
        handle_undecodable[OF middleware_test_libs_get c e])
qed

text \<open>
  C5, amended. For every request whose target is in origin form without fragment or white
  space and whose path decodes, that the middleware passes on and that none of the four
  routes takes (by its method or by its path), the answer is 404, not 500, with
  \<^verbatim>\<open>error\<close> equal to \<^verbatim>\<open>Not Found\<close> and \<^verbatim>\<open>message\<close> equal to \<^verbatim>\<open>Route\<close>, the
  request target as received (its path followed by its query) and \<^verbatim>\<open>not found\<close>.
\<close>

theorem C5_unrouted_requests_get_404:
  assumes "middleware L s req = Next"
    and "plain_target (originalUrl req)"
    and "decodable (pathname (originalUrl req))"
    and "\<not> (handles_method (req_method req)
             \<and> (path_matches ''/health'' (pathname (originalUrl req))
                \<or> path_matches ''/features'' (pathname (originalUrl req))
                \<or> path_matches ''/'' (pathname (originalUrl req))
                \<or> path_matches ''/api/status'' (pathname (originalUrl req))))"
  shows "status (fst (handle L s clk req)) = 404
       \<and> status (fst (handle L s clk req)) \<noteq> 500
       \<and> field (fst (handle L s clk req)) ''error'' = JStr ''Not Found''
       \<and> field (fst (handle L s clk req)) ''message''
           = JStr (''Route '' @ originalUrl req @ '' not found'')
       \<and> (\<exists>q. originalUrl req = pathname (originalUrl req) @ q
              \<and> field (fst (handle L s clk req)) ''message''
                  = JStr (''Route '' @ pathname (originalUrl req) @ q @ '' not found''))"
proof -
  have "handle L s clk req = not_found s clk req"
    using handle_unrouted[OF assms(1) find_route_None[OF assms(4)] assms(3)] .
  moreover have "originalUrl req
      = pathname (originalUrl req)
        @ dropWhile (\<lambda>c. c \<noteq> CHR ''?'' \<and> c \<noteq> CHR ''#'') (originalUrl req)"
    by (simp add: pathname_def)
  ultimately show ?thesis
    by (simp add: not_found_def field_def) metis
qed

theorem C5_unrouted_requests_get_404_witness:
  "status (fst (handle test_libs ghost_server noon (get ''/non-existent-route?x=1''))) = 404
   \<and> field (fst (handle test_libs ghost_server noon (get ''/non-existent-route?x=1''))) ''message''
       = JStr ''Route /non-existent-route?x=1 not found''
   \<and> status (fst (handle test_libs ghost_server noon \<lparr>req_method = ''DELETE'', originalUrl = ''/health''\<rparr>)) = 404"
proof -
  let ?g = "get ''/non-existent-route?x=1''"
  have p: "\<not> (handles_method (req_method ?g)
             \<and> (path_matches ''/health'' (pathname (originalUrl ?g))
                \<or> path_matches ''/features'' (pathname (originalUrl ?g))
                \<or> path_matches ''/'' (pathname (originalUrl ?g))
                \<or> path_matches ''/api/status'' (pathname (originalUrl ?g))))"
    by code_simp
  have pt: "plain_target (originalUrl ?g)" by code_simp
  have pd: "decodable (pathname (originalUrl ?g))" by code_simp
  let ?d = "\<lparr>req_method = ''DELETE'', originalUrl = ''/health''\<rparr>"
  have q: "\<not> (handles_method (req_method ?d)
             \<and> (path_matches ''/health'' (pathname (originalUrl ?d))
                \<or> path_matches ''/features'' (pathname (originalUrl ?d))
                \<or> path_matches ''/'' (pathname (originalUrl ?d))
                \<or> path_matches ''/api/status'' (pathname (originalUrl ?d))))"
    by (simp add: handles_method_def)
  have qt: "plain_target (originalUrl ?d)" by code_simp
  have qd: "decodable (pathname (originalUrl ?d))" by code_simp
  have m: "middleware test_libs ghost_server ?d = Next"
    by (simp add: middleware_def test_libs_def)
  from C5_unrouted_requests_get_404[OF middleware_test_libs_get pt pd p, of ghost_server noon]
       C5_unrouted_requests_get_404[OF m qt qd q, of noon]
  show ?thesis by (simp add: get_def)
qed

text \<open>
  C6. The configuration of a started server is one of two whole values: the parsed content
  of the file named by the environment when that file parses, the complete built-in default
  record when the file is missing or malformed. The loader returns nothing else.
\<close>

theorem C6_config_is_file_or_default:
  assumes "startup pe dir = Inr s"
  shows "config s = (case map_of dir (NODE_ENV s) of
                       Some (Parsed j) \<Rightarrow> j
                     | Some Malformed \<Rightarrow> default_config (PORT s)
                     | None \<Rightarrow> default_config (PORT s))
       \<and> (config s = default_config (PORT s) \<or> map_of dir (NODE_ENV s) = Some (Parsed (config s)))
       \<and> fst (load_config dir' env port) = (case map_of dir' env of
                       Some (Parsed j) \<Rightarrow> j
                     | Some Malformed \<Rightarrow> default_config port
                     | None \<Rightarrow> default_config port)"
proof -
  have lc: "fst (load_config d e p) = (case map_of d e of
                       Some (Parsed j) \<Rightarrow> j
                     | Some Malformed \<Rightarrow> default_config p
                     | None \<Rightarrow> default_config p)" for d e p
    by (simp add: load_config_def require_config_def split: option.splits config_file.splits)
  have "config s = fst (load_config dir (NODE_ENV s) (PORT s))"
    by (rule startup_Inr(4)[OF assms])
  then show ?thesis
    using lc by (auto split: option.splits config_file.splits)
qed

theorem C6_config_is_file_or_default_witness:
  "config ghost_server = default_config (PORT ghost_server)
   \<and> config loose_server = loose_config
   \<and> map_of [(''staging'', Parsed loose_config)] (NODE_ENV loose_server) = Some (Parsed (config loose_server))"
  using C6_config_is_file_or_default[OF startup_ghost]
        C6_config_is_file_or_default[OF startup_loose]
  by (simp add: ghost_server_def loose_server_def)

text \<open>
  C7. Over any sequence of requests and clock advances within one process lifetime, the
  \<^verbatim>\<open>uptime\<close> values reported by the successive calls that the \<^verbatim>\<open>/health\<close> handler
  serves are numbers in non-decreasing order, each at least 0. The monotonic clock is the
  runtime's: it is read as a natural number of nanoseconds that events only advance.
\<close>

theorem C7_uptime_monotone:
  "\<exists>us. health_uptimes L s (fst (run L s t es)) = map JNum us
        \<and> sorted us \<and> (\<forall>u\<in>set us. 0 \<le> u)"
proof -
  from uptimes_from[OF refl, of L s t es] obtain us where
    us: "health_uptimes L s (fst (run L s t es)) = map JNum us" "sorted us"
        "\<forall>u\<in>set us. of_nat t / 1000000000 \<le> u"
    by blast
  have "(0::rat) \<le> of_nat t / 1000000000" by simp
  with us(3) have "\<forall>u\<in>set us. 0 \<le> u" by (meson order_trans)
  with us(1,2) show ?thesis by blast
qed

theorem C7_uptime_monotone_witness:
  "health_uptimes test_libs ghost_server (fst (run test_libs ghost_server 2500000000 morning))
     = map JNum [5 / 2, 4, 4]
   \<and> sorted [5 / 2, 4, 4 :: rat]"
  using C7_uptime_monotone[of test_libs ghost_server 2500000000 morning] morning_uptimes
  by auto

text \<open>
  C8. For a started server: when \<^verbatim>\<open>PORT\<close> is absent from the process environment the
  port is the number 3000, when \<^verbatim>\<open>NODE_ENV\<close> is absent the environment name is
  \<^verbatim>\<open>development\<close>, when \<^verbatim>\<open>LOG_LEVEL\<close> is absent the log level is \<^verbatim>\<open>info\<close>; and
  the \<^verbatim>\<open>config\<close> field of every \<^verbatim>\<open>GET /health\<close> response holds exactly the resolved
  \<^verbatim>\<open>logLevel\<close> and \<^verbatim>\<open>port\<close>.
\<close>

theorem C8_defaults_and_health_config:
  assumes "startup pe dir = Inr s"
  shows "(map_of pe ''PORT'' = None \<longrightarrow> PORT s = JNum 3000)
       \<and> (map_of pe ''NODE_ENV'' = None \<longrightarrow> NODE_ENV s = ''development'')
       \<and> (map_of pe ''LOG_LEVEL'' = None \<longrightarrow> LOG_LEVEL s = ''info'')
       \<and> (\<forall>L clk req.
             req_method req = ''GET'' \<and> pathname (originalUrl req) = ''/health''
             \<and> middleware L s req = Next \<longrightarrow>
             field (fst (handle L s clk req)) ''config''
               = JObj [(''logLevel'', JStr (LOG_LEVEL s)), (''port'', PORT s)])"
proof -
  have p: "map_of pe ''PORT'' = None \<longrightarrow> PORT s = JNum 3000"
    using startup_Inr(1)[OF assms] by (simp add: getenv_def js_or_def)
  have e: "map_of pe ''NODE_ENV'' = None \<longrightarrow> NODE_ENV s = ''development''"
    using startup_Inr(2)[OF assms] by (simp add: env_or_def)
  have l: "map_of pe ''LOG_LEVEL'' = None \<longrightarrow> LOG_LEVEL s = ''info''"
    using startup_Inr(3)[OF assms] by (simp add: env_or_def)
  have h: "field (fst (handle L s clk req)) ''config''
               = JObj [(''logLevel'', JStr (LOG_LEVEL s)), (''port'', PORT s)]"
    if "req_method req = ''GET''" "pathname (originalUrl req) = ''/health''" "middleware L s req = Next"
    for L clk req
  proof -
    have "find_route req = Some Health"
      using that by (simp add: route_health handles_method_def)
    from handle_health[OF that(3) this] show ?thesis by (simp add: field_def)
  qed
  show ?thesis using p e l h by blast
qed

theorem C8_defaults_and_health_config_witness:
  "startup [] [] = Inr development_server
   \<and> PORT development_server = JNum 3000
   \<and> NODE_ENV development_server = ''development''
   \<and> LOG_LEVEL development_server = ''info''
   \<and> field (fst (handle test_libs development_server noon (get ''/health''))) ''config''
       = JObj [(''logLevel'', JStr ''info''), (''port'', JNum 3000)]"
proof -
  have "req_method (get ''/health'') = ''GET'' \<and> pathname (originalUrl (get ''/health'')) = ''/health''
        \<and> middleware test_libs development_server (get ''/health'') = Next"
    by (simp add: get_def pathname_def middleware_def test_libs_def)
  with C8_defaults_and_health_config[OF startup_development]
  have "PORT development_server = JNum 3000 \<and> NODE_ENV development_server = ''development''
      \<and> LOG_LEVEL development_server = ''info''
      \<and> field (fst (handle test_libs development_server noon (get ''/health''))) ''config''
       = JObj [(''logLevel'', JStr (LOG_LEVEL development_server)), (''port'', PORT development_server)]"
    by simp
  then show ?thesis by (simp add: startup_development)
qed

text \<open>
  C9. The four route handlers and the catch-all return the server they were given; the
  error middleware only appends to the console. Hence one request, and any sequence of
  requests, leaves the configuration record, the environment name and the log level
  unchanged, and the configuration in use after any run is still the value the loader
  returned at start-up.
\<close>

theorem C9_handlers_leave_config:
  "snd (health s clk req) = s
   \<and> snd (features s clk req) = s
   \<and> snd (root s clk req) = s
   \<and> snd (api_status s clk req) = s
   \<and> snd (not_found s clk req) = s
   \<and> snd (error_handler s e req) = s\<lparr>console := console s @ [ErrorLog e]\<rparr>
   \<and> config (snd (handle L s clk req)) = config s
   \<and> NODE_ENV (snd (handle L s clk req)) = NODE_ENV s
   \<and> LOG_LEVEL (snd (handle L s clk req)) = LOG_LEVEL s
   \<and> config (snd (run L s t es)) = config s
   \<and> NODE_ENV (snd (run L s t es)) = NODE_ENV s
   \<and> LOG_LEVEL (snd (run L s t es)) = LOG_LEVEL s
   \<and> (startup pe dir = Inr s \<longrightarrow>
        config (snd (run L s t es)) = fst (load_config dir (NODE_ENV s) (PORT s)))"
proof -
  have a: "snd (health s clk req) = s" "snd (features s clk req) = s"
    "snd (root s clk req) = s" "snd (api_status s clk req) = s"
    using route_handler_state[of Health s clk req] route_handler_state[of Features s clk req]
      route_handler_state[of Root s clk req] route_handler_state[of ApiStatus s clk req]
    by simp_all
  have b: "snd (not_found s clk req) = s"
    "snd (error_handler s e req) = s\<lparr>console := console s @ [ErrorLog e]\<rparr>"
    by (simp_all add: not_found_def error_handler_def)
  have c: "startup pe dir = Inr s \<longrightarrow>
        config (snd (run L s t es)) = fst (load_config dir (NODE_ENV s) (PORT s))"
    using run_fields[of L s t es] startup_Inr(4)[of pe dir s] by simp
  show ?thesis
    using a b c handle_fields(2,3,4)[of L s clk req] run_fields[of L s t es] by simp
qed

theorem C9_handlers_leave_config_witness:
  "startup [(''NODE_ENV'', ''staging'')] [(''staging'', Parsed loose_config)] = Inr loose_server
   \<and> config (snd (run test_libs loose_server 0
        [Arrive (get ''/'') ''2024-05-01T12:00:00.000Z'',
         Elapse 1000,
         Arrive (post ''/nope'') ''2024-05-01T12:00:01.000Z'',
         Arrive (get ''/nope'') ''2024-05-01T12:00:02.000Z''])) = loose_config"
  using C9_handlers_leave_config[of loose_server _ _ _ test_libs 0
        "[Arrive (get ''/'') ''2024-05-01T12:00:00.000Z'',
         Elapse 1000,
         Arrive (post ''/nope'') ''2024-05-01T12:00:01.000Z'',
         Arrive (get ''/nope'') ''2024-05-01T12:00:02.000Z'']"
        "[(''NODE_ENV'', ''staging'')]" "[(''staging'', Parsed loose_config)]"]
    startup_loose
  by (simp add: load_config_def require_config_def loose_server_def)

text \<open>
  C10. For each of the three flags, \<^verbatim>\<open>GET /\<close> reports the stored value when it is
  truthy and \<^verbatim>\<open>false\<close> otherwise: a flag stored as \<^verbatim>\<open>false\<close>, \<^verbatim>\<open>0\<close>, \<^verbatim>\<open>null\<close>
  or the empty string is reported as \<^verbatim>\<open>false\<close> like an absent one, and a truthy stored
  value, boolean or not, is reported verbatim.
\<close>

theorem C10_flag_defaulting:
  assumes "startup pe dir = Inr s"
    and "req_method req = ''GET''" "pathname (originalUrl req) = ''/''" "middleware L s req = Next"
    and "f \<in> set flag_names"
  shows "get_own (field (fst (handle L s clk req)) ''features'') f
           = (if truthy (opt_prop (get_own (config s) ''features'') f)
              then opt_prop (get_own (config s) ''features'') f else JBool False)
       \<and> (\<forall>kvs. get_own (config s) ''features'' = JObj kvs \<longrightarrow>
             (map_of kvs f \<in> {None, Some (JBool False), Some (JNum 0), Some JNull, Some (JStr [])} \<longrightarrow>
                get_own (field (fst (handle L s clk req)) ''features'') f = JBool False)
           \<and> (\<forall>v. map_of kvs f = Some v \<and> truthy v \<longrightarrow>
                get_own (field (fst (handle L s clk req)) ''features'') f = v))"
proof -
  let ?feats = "get_own (config s) ''features''"
  let ?rep = "get_own (field (fst (handle L s clk req)) ''features'') f"
  have n: "\<not> nullish (config s)" by (rule startup_Inr(7)[OF assms(1)])
  have rr: "find_route req = Some Root"
    using assms(2,3) by (simp add: route_root handles_method_def)
  have R: "?rep = js_or (opt_prop ?feats f) (JBool False)"
    using handle_root[OF assms(4) rr n, of clk] assms(5)
    by (auto simp: field_def flag_names_def)
  have a: "?rep = (if truthy (opt_prop ?feats f) then opt_prop ?feats f else JBool False)"
    using R by (simp add: js_or_def)
  have b: "?rep = JBool False"
    if "?feats = JObj kvs"
       "map_of kvs f \<in> {None, Some (JBool False), Some (JNum 0), Some JNull, Some (JStr [])}"
    for kvs
    using that by (auto simp: a opt_prop_def)
  have c: "?rep = v" if "?feats = JObj kvs" "map_of kvs f = Some v" "truthy v" for kvs v
    using that by (simp add: a opt_prop_def)
  show ?thesis using a b c by blast
qed

theorem C10_flag_defaulting_witness:
  "get_own (field (fst (handle test_libs loose_server noon (get ''/''))) ''features'') ''newUI''
     = JStr ''yes''
   \<and> get_own (field (fst (handle test_libs loose_server noon (get ''/''))) ''features'') ''betaFeatures''
     = JBool False
   \<and> get_own (field (fst (handle test_libs loose_server noon (get ''/''))) ''features'') ''advancedAnalytics''
     = JBool False"
proof -
  have m: "req_method (get ''/'') = ''GET''" "pathname (originalUrl (get ''/'')) = ''/''"
    by (simp_all add: get_def pathname_def)
  have f: "''newUI'' \<in> set flag_names" "''betaFeatures'' \<in> set flag_names"
    "''advancedAnalytics'' \<in> set flag_names"
    by (simp_all add: flag_names_def)
  from C10_flag_defaulting[OF startup_loose m middleware_test_libs_get f(1), of noon]
       C10_flag_defaulting[OF startup_loose m middleware_test_libs_get f(2), of noon]
       C10_flag_defaulting[OF startup_loose m middleware_test_libs_get f(3), of noon]
  show ?thesis
    by (simp add: loose_server_def loose_config_def opt_prop_def)
qed

end
